theory Spec2Isabelle
  imports Main "HOL-Library.Sublist" "HOL-Library.AList"
begin

section \<open>Strings, streams and files\<close>

text \<open>
  A \<^verbatim>\<open>std::string\<close> is a sequence of bytes: \<^typ>\<open>string\<close>. The line delimiter of
  \<^verbatim>\<open>getline\<close> is the byte 10.
\<close>

definition newline :: char where
  "newline = CHR 0x0A"

text \<open>
  \<^verbatim>\<open>s.find(pat)\<close>: the position of the first occurrence of \<open>pat\<close> in \<open>s\<close>;
  \<^verbatim>\<open>std::string::npos\<close> is \<open>None\<close>.
\<close>

fun string_find :: "string \<Rightarrow> string \<Rightarrow> nat option" where
  "string_find [] pat = (if pat = [] then Some 0 else None)"
| "string_find (c # cs) pat =
     (if prefix pat (c # cs) then Some 0 else map_option Suc (string_find cs pat))"

text \<open>
  \<^verbatim>\<open>getline(stream, line)\<close> on the characters a stream has left: at the end of the
  stream nothing is extracted and the call fails (\<open>None\<close>); otherwise the line is
  everything before the first delimiter, the delimiter is dropped, and the stream
  continues after it. A last line without a delimiter is still a line.
\<close>

fun getline :: "string \<Rightarrow> (string \<times> string) option" where
  "getline [] = None"
| "getline (c # cs) =
     Some (takeWhile (\<lambda>x. x \<noteq> newline) (c # cs),
           drop 1 (dropWhile (\<lambda>x. x \<noteq> newline) (c # cs)))"

text \<open>
  The file system maps a path to the bytes of the file there. \<^verbatim>\<open>std::ifstream\<close> on
  a path without a readable file is a failed stream: every \<^verbatim>\<open>getline\<close> on it fails,
  as on a stream with nothing left.
\<close>

type_synonym filesystem = "string \<rightharpoonup> string"

definition ifstream :: "filesystem \<Rightarrow> string \<Rightarrow> string" where
  "ifstream files filepath = (case files filepath of None \<Rightarrow> [] | Some bytes \<Rightarrow> bytes)"

section \<open>The shader source splitter\<close>

record ShaderProgramSource =
  VertexSource :: string
  FragmentSource :: string

datatype ShaderType = NONE | VERTEX | FRAGMENT

text \<open>The enumerators' values: \<^verbatim>\<open>NONE = -1, VERTEX = 0, FRAGMENT = 1\<close>.\<close>

fun ShaderType_int :: "ShaderType \<Rightarrow> int" where
  "ShaderType_int NONE = - 1"
| "ShaderType_int VERTEX = 0"
| "ShaderType_int FRAGMENT = 1"

text \<open>
  The two ways the source can leave defined behaviour: an index outside an array, and
  reading a variable or buffer that nothing has written.
\<close>

datatype error = IndexOutOfBounds int | IndeterminateValue

text \<open>The locals of \<^verbatim>\<open>ParseShader\<close>: the array \<^verbatim>\<open>ss[2]\<close> and the current \<^verbatim>\<open>type\<close>.\<close>

record parse_state =
  ss :: "string list"
  type :: ShaderType

definition parse_init :: parse_state where
  "parse_init = \<lparr>ss = [[], []], type = NONE\<rparr>"

text \<open>
  \<^verbatim>\<open>ss[i] << line << "\n"\<close>. The array has two elements; an index outside of it is
  undefined behaviour in the source and the error \<^term>\<open>IndexOutOfBounds\<close> here.
\<close>

definition ss_append :: "parse_state \<Rightarrow> int \<Rightarrow> string \<Rightarrow> error + parse_state" where
  "ss_append st i line =
     (if 0 \<le> i \<and> i < int (length (ss st))
      then Inr (st\<lparr>ss := (ss st)[nat i := (ss st) ! nat i @ line @ [newline]]\<rparr>)
      else Inl (IndexOutOfBounds i))"

text \<open>The body of the \<^verbatim>\<open>while\<close> loop, for one line.\<close>

definition loop_body :: "parse_state \<Rightarrow> string \<Rightarrow> error + parse_state" where
  "loop_body st line =
     (if string_find line ''#shader'' \<noteq> None then
        (if string_find line ''vertex'' \<noteq> None then Inr (st\<lparr>type := VERTEX\<rparr>)
         else if string_find line ''fragment'' \<noteq> None then Inr (st\<lparr>type := FRAGMENT\<rparr>)
         else Inr st)
      else ss_append st (ShaderType_int (type st)) line)"

text \<open>\<^verbatim>\<open>while (getline(stream, line)) { ... }\<close> on what the stream has left.\<close>

function parse_loop :: "parse_state \<Rightarrow> string \<Rightarrow> error + parse_state" where
  "parse_loop st stream =
     (case getline stream of
        None \<Rightarrow> Inr st
      | Some (line, rest) \<Rightarrow>
          (case loop_body st line of
             Inl e \<Rightarrow> Inl e
           | Inr st' \<Rightarrow> parse_loop st' rest))"
  by pat_completeness auto
termination
proof (relation "measure (\<lambda>(st, stream). length stream)")
  show "wf (measure (\<lambda>(st, stream). length stream))"
    by simp
next
  fix st :: parse_state and stream x2 line rest x2a
  assume "getline stream = Some x2" and "(line, rest) = x2"
  then have "getline stream = Some (line, rest)"
    by simp
  then have g: "getline stream = Some (line, rest)"
    by simp
  then obtain c cs where s: "stream = c # cs"
    by (cases stream) simp_all
  from g s have "rest = drop 1 (dropWhile (\<lambda>x. x \<noteq> newline) stream)"
    by simp
  then have "length rest = length (dropWhile (\<lambda>x. x \<noteq> newline) stream) - 1"
    by simp
  moreover have "length (dropWhile (\<lambda>x. x \<noteq> newline) stream) \<le> length stream"
    by (rule length_dropWhile_le)
  moreover have "0 < length stream"
    using s by simp
  ultimately have "length rest < length stream"
    by arith
  then show "((x2a, rest), (st, stream)) \<in> measure (\<lambda>(st, stream). length stream)"
    by simp
qed

declare parse_loop.simps [simp del]

definition ParseShader :: "filesystem \<Rightarrow> string \<Rightarrow> error + ShaderProgramSource" where
  "ParseShader files filepath =
     (case parse_loop parse_init (ifstream files filepath) of
        Inl e \<Rightarrow> Inl e
      | Inr st \<Rightarrow> Inr \<lparr>VertexSource = ss st ! 0, FragmentSource = ss st ! 1\<rparr>)"

text \<open>
  A text file made of the given lines, each ended by the line delimiter, and the loop
  of \<^verbatim>\<open>ParseShader\<close> run on a file's lines one by one.
\<close>

definition text_of_lines :: "string list \<Rightarrow> string" where
  "text_of_lines ls = concat (map (\<lambda>l. l @ [newline]) ls)"

fun parse_lines :: "parse_state \<Rightarrow> string list \<Rightarrow> error + parse_state" where
  "parse_lines st [] = Inr st"
| "parse_lines st (line # ls) =
     (case loop_body st line of
        Inl e \<Rightarrow> Inl e
      | Inr st' \<Rightarrow> parse_lines st' ls)"

text \<open>
  The invariant of the loop: two buffers, the marker in neither, and each buffer empty
  or ended by the line delimiter.
\<close>

definition marker_free :: "parse_state \<Rightarrow> bool" where
  "marker_free st \<longleftrightarrow> length (ss st) = 2 \<and>
     list_all (\<lambda>buf. string_find buf ''#shader'' = None \<and> (buf = [] \<or> last buf = newline)) (ss st)"

section \<open>The graphics context\<close>

text \<open>
  The program builder talks to the graphics library only. The library is not part of
  the program; it is modelled here as far as the builder uses it: shader and program
  objects with their names, the order of the calls made (\<open>calls\<close>), and a driver that
  decides what compiles, links and validates. The builder's standard output is \<open>cout\<close>.
\<close>

type_synonym GLuint = nat

datatype shader_kind = GL_VERTEX_SHADER | GL_FRAGMENT_SHADER

datatype shader_param = GL_COMPILE_STATUS | GL_INFO_LOG_LENGTH

definition GL_FALSE :: int where
  "GL_FALSE = 0"

definition GL_TRUE :: int where
  "GL_TRUE = 1"

record shader_object =
  kind :: shader_kind
  source_text :: string
  compile_status :: bool
  info_log :: string
  delete_flag :: bool

record program_object =
  attached :: "GLuint list"
  link_status :: bool
  validate_status :: bool

text \<open>
  The driver: the compiler gives the compile status and the info log of a source text
  for a stage; the linker and the validator see the shader objects attached to the
  program. The info log is the text of the log as a C string, without its terminator.
\<close>

record driver =
  compile :: "shader_kind \<Rightarrow> string \<Rightarrow> bool \<times> string"
  link :: "shader_object list \<Rightarrow> bool"
  validate :: "shader_object list \<Rightarrow> bool"

datatype gl_call =
    Call_glCreateProgram GLuint
  | Call_glCreateShader shader_kind GLuint
  | Call_glShaderSource GLuint string
  | Call_glCompileShader GLuint
  | Call_glGetShaderiv GLuint shader_param
  | Call_glGetShaderInfoLog GLuint int
  | Call_glDeleteShader GLuint
  | Call_glAttachShader GLuint GLuint
  | Call_glLinkProgram GLuint
  | Call_glValidateProgram GLuint

record world =
  shaders :: "(GLuint \<times> shader_object) list"
  programs :: "(GLuint \<times> program_object) list"
  last_name :: GLuint
  calls :: "gl_call list"
  cout :: string

definition called :: "gl_call \<Rightarrow> world \<Rightarrow> world" where
  "called c w = w\<lparr>calls := calls w @ [c]\<rparr>"

text \<open>
  Object creation in a current context with resources left: the name is new and not
  zero. (Zero is what the library returns when it cannot create the object.)
\<close>

definition glCreateProgram :: "world \<Rightarrow> GLuint \<times> world" where
  "glCreateProgram w =
     (let program = Suc (last_name w)
      in (program,
          called (Call_glCreateProgram program)
            (w\<lparr>programs := (program, \<lparr>attached = [], link_status = False, validate_status = False\<rparr>) # programs w,
               last_name := program\<rparr>)))"

definition glCreateShader :: "shader_kind \<Rightarrow> world \<Rightarrow> GLuint \<times> world" where
  "glCreateShader ty w =
     (let sid = Suc (last_name w)
      in (sid,
          called (Call_glCreateShader ty sid)
            (w\<lparr>shaders := (sid, \<lparr>kind = ty, source_text = [], compile_status = False,
                                    info_log = [], delete_flag = False\<rparr>) # shaders w,
               last_name := sid\<rparr>)))"

text \<open>
  \<^verbatim>\<open>source.c_str()\<close> handed over with a null length pointer: the library reads the
  text up to the first zero byte.
\<close>

definition c_str :: "string \<Rightarrow> string" where
  "c_str s = takeWhile (\<lambda>c. c \<noteq> CHR 0x00) s"

text \<open>
  The name zero names no object. A call that names no object of the right kind raises
  a library error and changes nothing.
\<close>

definition lookup_shader :: "world \<Rightarrow> GLuint \<Rightarrow> shader_object option" where
  "lookup_shader w sid = (if sid = 0 then None else map_of (shaders w) sid)"

definition lookup_program :: "world \<Rightarrow> GLuint \<Rightarrow> program_object option" where
  "lookup_program w program = (if program = 0 then None else map_of (programs w) program)"

definition glShaderSource :: "GLuint \<Rightarrow> string \<Rightarrow> world \<Rightarrow> world" where
  "glShaderSource sid src w =
     called (Call_glShaderSource sid src)
       (case lookup_shader w sid of
          None \<Rightarrow> w
        | Some so \<Rightarrow> w\<lparr>shaders := AList.update sid (so\<lparr>source_text := src\<rparr>) (shaders w)\<rparr>)"

definition glCompileShader :: "driver \<Rightarrow> GLuint \<Rightarrow> world \<Rightarrow> world" where
  "glCompileShader drv sid w =
     called (Call_glCompileShader sid)
       (case lookup_shader w sid of
          None \<Rightarrow> w
        | Some so \<Rightarrow>
            (let (ok, log) = compile drv (kind so) (source_text so)
             in w\<lparr>shaders := AList.update sid (so\<lparr>compile_status := ok, info_log := log\<rparr>) (shaders w)\<rparr>))"

text \<open>
  \<^verbatim>\<open>glGetShaderiv(id, pname, &x)\<close>: what is written to \<open>x\<close>, or \<open>None\<close> when the call
  fails and leaves \<open>x\<close> as it was. The length of an info log counts its terminator;
  it is zero for a shader object that has no info log, which is an empty \<open>info_log\<close>
  here.
\<close>

definition glGetShaderiv :: "GLuint \<Rightarrow> shader_param \<Rightarrow> world \<Rightarrow> int option \<times> world" where
  "glGetShaderiv sid pname w =
     (case lookup_shader w sid of
        None \<Rightarrow> None
      | Some so \<Rightarrow>
          (case pname of
             GL_COMPILE_STATUS \<Rightarrow> Some (if compile_status so then GL_TRUE else GL_FALSE)
           | GL_INFO_LOG_LENGTH \<Rightarrow>
               Some (if info_log so = [] then 0 else int (length (info_log so)) + 1)),
      called (Call_glGetShaderiv sid pname) w)"

text \<open>
  \<^verbatim>\<open>glGetShaderInfoLog(id, bufSize, &length, message)\<close>: the C string written to
  \<open>message\<close>, at most \<open>bufSize - 1\<close> characters of the log and the terminator; nothing
  is written (\<open>None\<close>) when the buffer has no room for the terminator or the call fails.
\<close>

definition glGetShaderInfoLog :: "GLuint \<Rightarrow> int \<Rightarrow> world \<Rightarrow> string option \<times> world" where
  "glGetShaderInfoLog sid bufSize w =
     (case lookup_shader w sid of
        None \<Rightarrow> None
      | Some so \<Rightarrow> if bufSize \<le> 0 then None else Some (take (nat (bufSize - 1)) (info_log so)),
      called (Call_glGetShaderInfoLog sid bufSize) w)"

definition is_attached :: "world \<Rightarrow> GLuint \<Rightarrow> bool" where
  "is_attached w sid = list_ex (\<lambda>(p, po). List.member (attached po) sid) (programs w)"

text \<open>
  \<^verbatim>\<open>glDeleteShader\<close>: the name zero is ignored; a shader object attached to a program
  is flagged for deletion and goes when it is detached; any other is deleted at once.
\<close>

definition glDeleteShader :: "GLuint \<Rightarrow> world \<Rightarrow> world" where
  "glDeleteShader sid w =
     called (Call_glDeleteShader sid)
       (case lookup_shader w sid of
          None \<Rightarrow> w
        | Some so \<Rightarrow>
            if is_attached w sid
            then w\<lparr>shaders := AList.update sid (so\<lparr>delete_flag := True\<rparr>) (shaders w)\<rparr>
            else w\<lparr>shaders := AList.delete sid (shaders w)\<rparr>)"

definition glAttachShader :: "GLuint \<Rightarrow> GLuint \<Rightarrow> world \<Rightarrow> world" where
  "glAttachShader program sid w =
     called (Call_glAttachShader program sid)
       (case (lookup_program w program, lookup_shader w sid) of
          (Some po, Some so) \<Rightarrow>
            if List.member (attached po) sid then w
            else w\<lparr>programs := AList.update program (po\<lparr>attached := attached po @ [sid]\<rparr>) (programs w)\<rparr>
        | _ \<Rightarrow> w)"

definition attached_objects :: "world \<Rightarrow> program_object \<Rightarrow> shader_object list" where
  "attached_objects w po = List.map_filter (lookup_shader w) (attached po)"

definition glLinkProgram :: "driver \<Rightarrow> GLuint \<Rightarrow> world \<Rightarrow> world" where
  "glLinkProgram drv program w =
     called (Call_glLinkProgram program)
       (case lookup_program w program of
          None \<Rightarrow> w
        | Some po \<Rightarrow>
            w\<lparr>programs := AList.update program
                 (po\<lparr>link_status := link drv (attached_objects w po)\<rparr>) (programs w)\<rparr>)"

definition glValidateProgram :: "driver \<Rightarrow> GLuint \<Rightarrow> world \<Rightarrow> world" where
  "glValidateProgram drv program w =
     called (Call_glValidateProgram program)
       (case lookup_program w program of
          None \<Rightarrow> w
        | Some po \<Rightarrow>
            w\<lparr>programs := AList.update program
                 (po\<lparr>validate_status := validate drv (attached_objects w po)\<rparr>) (programs w)\<rparr>)"

text \<open>\<^verbatim>\<open>std::cout << text\<close>; \<^verbatim>\<open>std::endl\<close> writes the line delimiter.\<close>

definition print :: "string \<Rightarrow> world \<Rightarrow> world" where
  "print text w = w\<lparr>cout := cout w @ text\<rparr>"

section \<open>The program builder\<close>

text \<open>
  \<^verbatim>\<open>CompileShader\<close>. The buffer \<^verbatim>\<open>message\<close> has \<^verbatim>\<open>length\<close> bytes and is filled by
  \<^verbatim>\<open>glGetShaderInfoLog\<close>; printing it prints the C string in it. Reading \<^verbatim>\<open>result\<close>,
  \<^verbatim>\<open>length\<close> or \<^verbatim>\<open>message\<close> when the library has written nothing there is the error
  \<^term>\<open>IndeterminateValue\<close>: so is printing \<^verbatim>\<open>message\<close> after a failed compilation
  that left no info log, where \<^verbatim>\<open>length\<close> is zero and nothing is written to the buffer.
\<close>

definition CompileShader :: "driver \<Rightarrow> shader_kind \<Rightarrow> string \<Rightarrow> world \<Rightarrow> error + (GLuint \<times> world)" where
  "CompileShader drv ty source w0 =
     (let (sid, w1) = glCreateShader ty w0;
          src = c_str source;
          w2 = glShaderSource sid src w1;
          w3 = glCompileShader drv sid w2
      in case glGetShaderiv sid GL_COMPILE_STATUS w3 of
           (None, w4) \<Rightarrow> Inl IndeterminateValue
         | (Some result, w4) \<Rightarrow>
             if result = GL_FALSE then
               (case glGetShaderiv sid GL_INFO_LOG_LENGTH w4 of
                  (None, w5) \<Rightarrow> Inl IndeterminateValue
                | (Some len, w5) \<Rightarrow>
                    (case glGetShaderInfoLog sid len w5 of
                       (None, w6) \<Rightarrow> Inl IndeterminateValue
                     | (Some message, w6) \<Rightarrow>
                         (let w7 = print (''Failed to compile shader''
                                     @ (if ty = GL_VERTEX_SHADER then ''vertex'' else ''fragment'')
                                     @ [newline]) w6;
                              w8 = print (message @ [newline]) w7;
                              w9 = glDeleteShader sid w8
                          in Inr (0, w9))))
             else Inr (sid, w4))"

text \<open>
  \<^verbatim>\<open>CreateShader\<close> returns \<^verbatim>\<open>program\<close> as an \<^verbatim>\<open>int\<close> and its caller stores it in an
  \<^verbatim>\<open>unsigned int\<close> again: the handle is the name itself.
\<close>

definition CreateShader :: "driver \<Rightarrow> string \<Rightarrow> string \<Rightarrow> world \<Rightarrow> error + (GLuint \<times> world)" where
  "CreateShader drv vertexShader fragmentShader w0 =
     (let (program, w1) = glCreateProgram w0
      in case CompileShader drv GL_VERTEX_SHADER vertexShader w1 of
           Inl e \<Rightarrow> Inl e
         | Inr (vs, w2) \<Rightarrow>
             (case CompileShader drv GL_FRAGMENT_SHADER fragmentShader w2 of
                Inl e \<Rightarrow> Inl e
              | Inr (fs, w3) \<Rightarrow>
                  (let w4 = glAttachShader program vs w3;
                       w5 = glAttachShader program fs w4;
                       w6 = glLinkProgram drv program w5;
                       w7 = glValidateProgram drv program w6;
                       w8 = glDeleteShader vs w7;
                       w9 = glDeleteShader fs w8
                   in Inr (program, w9))))"

text \<open>What a caller can observe of one call: the calls made and the text printed by it.\<close>

definition new_calls :: "world \<Rightarrow> world \<Rightarrow> gl_call list" where
  "new_calls w w' = drop (length (calls w)) (calls w')"

definition new_output :: "world \<Rightarrow> world \<Rightarrow> string" where
  "new_output w w' = drop (length (cout w)) (cout w')"

text \<open>A shader object is released when it is gone or flagged for deletion.\<close>

definition released :: "world \<Rightarrow> GLuint \<Rightarrow> bool" where
  "released w sid = (case lookup_shader w sid of None \<Rightarrow> True | Some so \<Rightarrow> delete_flag so)"


definition compile_calls :: "gl_call list \<Rightarrow> GLuint list" where
  "compile_calls cs =
     List.map_filter (\<lambda>c. case c of Call_glCompileShader sid \<Rightarrow> Some sid | _ \<Rightarrow> None) cs"

text \<open>The starting point of the examples: a context without objects, nothing printed.\<close>

definition empty_world :: world where
  "empty_world = \<lparr>shaders = [], programs = [], last_name = 0, calls = [], cout = []\<rparr>"

section \<open>Example inputs\<close>

text \<open>
  Four drivers: one whose compiler rejects every vertex text, one whose compiler
  accepts every text, one whose compiler rejects every text and leaves no info log, one
  whose compiler rejects every text with an info log. Their linker wants a vertex and a
  fragment shader object.
\<close>

definition needs_both_stages :: "shader_object list \<Rightarrow> bool" where
  "needs_both_stages objs \<longleftrightarrow>
     list_ex (\<lambda>so. kind so = GL_VERTEX_SHADER) objs \<and>
     list_ex (\<lambda>so. kind so = GL_FRAGMENT_SHADER) objs"

definition vertex_rejecting_driver :: driver where
  "vertex_rejecting_driver =
     \<lparr>compile = (\<lambda>ty src. if ty = GL_VERTEX_SHADER then (False, ''0:1: syntax error'') else (True, [])),
      link = needs_both_stages, validate = needs_both_stages\<rparr>"

definition accepting_driver :: driver where
  "accepting_driver =
     \<lparr>compile = (\<lambda>ty src. (True, [])), link = needs_both_stages, validate = needs_both_stages\<rparr>"

definition silent_rejecting_driver :: driver where
  "silent_rejecting_driver =
     \<lparr>compile = (\<lambda>ty src. (False, [])), link = needs_both_stages, validate = needs_both_stages\<rparr>"

definition rejecting_driver :: driver where
  "rejecting_driver =
     \<lparr>compile = (\<lambda>ty src. (False, ''0:1: syntax error'')),
      link = needs_both_stages, validate = needs_both_stages\<rparr>"

definition sample_lines :: "string list" where
  "sample_lines = [''#shader vertex'', ''void main() {'', ''}'', ''#shader fragment'', ''out vec4 c;'']"

definition sample_files :: filesystem where
  "sample_files = [''default.shader'' \<mapsto> text_of_lines sample_lines]"

definition content_first_files :: filesystem where
  "content_first_files = [''default.shader'' \<mapsto> text_of_lines [''#version 330 core'', ''#shader vertex'']]"

section \<open>Reading lines\<close>

lemma string_find_None: "string_find s pat = None \<longleftrightarrow> \<not> sublist pat s"
  by (induction s) (auto simp: sublist_Cons_right)

lemma sublist_sep: "a \<notin> set p \<Longrightarrow> sublist p (xs @ a # ys) \<Longrightarrow> sublist p xs \<or> sublist p ys"
  by (auto simp: sublist_append sublist_Cons_right prefix_Cons suffix_def)

lemma getline_line: "newline \<notin> set l \<Longrightarrow> getline (l @ newline # rest) = Some (l, rest)"
  by (cases l) (auto simp: takeWhile_append dropWhile_append)

lemma getline_last:
  assumes "newline \<notin> set l" and "l \<noteq> []"
  shows "getline l = Some (l, [])"
proof -
  from assms have tw: "takeWhile (\<lambda>x. x \<noteq> newline) l = l"
    and dw: "dropWhile (\<lambda>x. x \<noteq> newline) l = []"
    by auto
  from assms obtain c cs where "l = c # cs"
    by (cases l) auto
  then have "getline l = Some (takeWhile (\<lambda>x. x \<noteq> newline) l, drop 1 (dropWhile (\<lambda>x. x \<noteq> newline) l))"
    by (simp only: getline.simps)
  then show ?thesis
    unfolding tw dw by simp
qed

lemma parse_loop_Nil: "parse_loop st [] = Inr st"
  by (simp add: parse_loop.simps)

lemma parse_loop_line:
  "newline \<notin> set l \<Longrightarrow>
   parse_loop st (l @ newline # rest) =
     (case loop_body st l of Inl e \<Rightarrow> Inl e | Inr st' \<Rightarrow> parse_loop st' rest)"
  by (subst parse_loop.simps) (simp add: getline_line)

lemma parse_loop_last:
  "newline \<notin> set l \<Longrightarrow> l \<noteq> [] \<Longrightarrow>
   parse_loop st l = (case loop_body st l of Inl e \<Rightarrow> Inl e | Inr st' \<Rightarrow> Inr st')"
  by (subst parse_loop.simps) (simp add: getline_last parse_loop_Nil split: sum.splits)

lemma parse_loop_terminated:
  "\<forall>l \<in> set ls. newline \<notin> set l \<Longrightarrow> parse_loop st (text_of_lines ls) = parse_lines st ls"
proof (induction ls arbitrary: st)
  case Nil
  then show ?case by (simp add: text_of_lines_def parse_loop_Nil)
next
  case (Cons l ls)
  then have "parse_loop st (l @ newline # text_of_lines ls) =
      (case loop_body st l of Inl e \<Rightarrow> Inl e | Inr st' \<Rightarrow> parse_loop st' (text_of_lines ls))"
    by (simp add: parse_loop_line)
  with Cons show ?case
    by (simp add: text_of_lines_def split: sum.splits)
qed

lemma parse_loop_unterminated:
  "\<forall>l \<in> set ls. newline \<notin> set l \<Longrightarrow> newline \<notin> set l' \<Longrightarrow> l' \<noteq> [] \<Longrightarrow>
   parse_loop st (text_of_lines ls @ l') = parse_lines st (ls @ [l'])"
proof (induction ls arbitrary: st)
  case Nil
  then show ?case by (simp add: text_of_lines_def parse_loop_last split: sum.splits)
next
  case (Cons l ls)
  then have "parse_loop st (l @ newline # text_of_lines ls @ l') =
      (case loop_body st l of Inl e \<Rightarrow> Inl e | Inr st' \<Rightarrow> parse_loop st' (text_of_lines ls @ l'))"
    by (simp add: parse_loop_line)
  with Cons show ?case
    by (simp add: text_of_lines_def split: sum.splits)
qed

lemma parse_loop_lines:
  assumes nl: "\<forall>l \<in> set ls. newline \<notin> set l"
    and c: "contents = text_of_lines ls \<or> (contents @ [newline] = text_of_lines ls \<and> ls \<noteq> [] \<and> last ls \<noteq> [])"
  shows "parse_loop st contents = parse_lines st ls"
  using c
proof
  assume "contents = text_of_lines ls"
  with nl show ?thesis by (simp add: parse_loop_terminated)
next
  assume a: "contents @ [newline] = text_of_lines ls \<and> ls \<noteq> [] \<and> last ls \<noteq> []"
  then have "ls = butlast ls @ [last ls]"
    by simp
  then have "text_of_lines ls = (text_of_lines (butlast ls) @ last ls) @ [newline]"
    by (metis (no_types, lifting) append.assoc append_Nil2 concat.simps concat_append list.simps(8,9) map_append text_of_lines_def)
  with a have "contents = text_of_lines (butlast ls) @ last ls"
    by simp
  moreover have "\<forall>l \<in> set (butlast ls). newline \<notin> set l" "newline \<notin> set (last ls)"
    using nl a by (auto dest: in_set_butlastD)
  ultimately have "parse_loop st contents = parse_lines st (butlast ls @ [last ls])"
    using a by (simp add: parse_loop_unterminated)
  with a show ?thesis by simp
qed

section \<open>Properties of the splitter\<close>

lemma parse_lines_append:
  "parse_lines st (xs @ ys) =
     (case parse_lines st xs of Inl e \<Rightarrow> Inl e | Inr st' \<Rightarrow> parse_lines st' ys)"
  by (induction xs arbitrary: st) (auto split: sum.splits)

lemma parse_lines_content_vertex:
  "\<forall>l \<in> set ls. string_find l ''#shader'' = None \<Longrightarrow>
   parse_lines \<lparr>ss = [v, f], type = VERTEX\<rparr> ls = Inr \<lparr>ss = [v @ text_of_lines ls, f], type = VERTEX\<rparr>"
  by (induction ls arbitrary: v) (auto simp: loop_body_def ss_append_def text_of_lines_def)

lemma parse_lines_content_fragment:
  "\<forall>l \<in> set ls. string_find l ''#shader'' = None \<Longrightarrow>
   parse_lines \<lparr>ss = [v, f], type = FRAGMENT\<rparr> ls = Inr \<lparr>ss = [v, f @ text_of_lines ls], type = FRAGMENT\<rparr>"
  by (induction ls arbitrary: f) (auto simp: loop_body_def ss_append_def text_of_lines_def)

lemma loop_body_vertex:
  "string_find l ''#shader'' \<noteq> None \<Longrightarrow> string_find l ''vertex'' \<noteq> None \<Longrightarrow>
   loop_body st l = Inr (st\<lparr>type := VERTEX\<rparr>)"
  by (simp add: loop_body_def)

lemma loop_body_fragment:
  "string_find l ''#shader'' \<noteq> None \<Longrightarrow> string_find l ''vertex'' = None \<Longrightarrow>
   string_find l ''fragment'' \<noteq> None \<Longrightarrow> loop_body st l = Inr (st\<lparr>type := FRAGMENT\<rparr>)"
  by (simp add: loop_body_def)

lemma parse_lines_vertex_section:
  assumes "string_find dv ''#shader'' \<noteq> None" and "string_find dv ''vertex'' \<noteq> None"
    and "\<forall>l \<in> set ls. string_find l ''#shader'' = None"
  shows "parse_lines \<lparr>ss = [v, f], type = t\<rparr> (dv # ls) =
     Inr \<lparr>ss = [v @ text_of_lines ls, f], type = VERTEX\<rparr>"
  using assms by (simp add: loop_body_vertex parse_lines_content_vertex)

lemma parse_lines_fragment_section:
  assumes "string_find df ''#shader'' \<noteq> None" and "string_find df ''vertex'' = None"
    and "string_find df ''fragment'' \<noteq> None"
    and "\<forall>l \<in> set ls. string_find l ''#shader'' = None"
  shows "parse_lines \<lparr>ss = [v, f], type = t\<rparr> (df # ls) =
     Inr \<lparr>ss = [v, f @ text_of_lines ls], type = FRAGMENT\<rparr>"
  using assms by (simp add: loop_body_fragment parse_lines_content_fragment)

text \<open>
  Claim C1. A file read as a vertex directive line, N content lines, a fragment
  directive line and M content lines, in either order of the two sections and with or
  without a delimiter after its last line, is split into a \<open>VertexSource\<close> of exactly
  the N vertex lines and a \<open>FragmentSource\<close> of exactly the M fragment lines, in their
  order, each followed by the line delimiter. A vertex directive contains the marker
  and \<open>vertex\<close>; a fragment directive contains the marker and \<open>fragment\<close> and not
  \<open>vertex\<close>; a content line does not contain the marker.
\<close>

theorem C1_sections_split:
  assumes src: "files filepath = Some contents"
    and contents: "contents = text_of_lines lines \<or>
                   (contents @ [newline] = text_of_lines lines \<and> last lines \<noteq> [])"
    and order: "lines = dv # vlines @ df # flines \<or> lines = df # flines @ dv # vlines"
    and dv: "string_find dv ''#shader'' \<noteq> None" "string_find dv ''vertex'' \<noteq> None"
    and df: "string_find df ''#shader'' \<noteq> None" "string_find df ''vertex'' = None"
            "string_find df ''fragment'' \<noteq> None"
    and content: "\<forall>l \<in> set (vlines @ flines). string_find l ''#shader'' = None"
    and nl: "\<forall>l \<in> set lines. newline \<notin> set l"
  shows "ParseShader files filepath =
           Inr \<lparr>VertexSource = text_of_lines vlines, FragmentSource = text_of_lines flines\<rparr>"
proof -
  from order have "lines \<noteq> []"
    by auto
  with contents nl have loop: "parse_loop parse_init contents = parse_lines parse_init lines"
    by (intro parse_loop_lines) auto
  from content have v: "\<forall>l \<in> set vlines. string_find l ''#shader'' = None"
    and f: "\<forall>l \<in> set flines. string_find l ''#shader'' = None"
    by auto
  from order have "parse_lines parse_init lines =
      Inr \<lparr>ss = [text_of_lines vlines, text_of_lines flines],
           type = (if lines = dv # vlines @ df # flines then FRAGMENT else VERTEX)\<rparr>"
  proof
    assume l: "lines = dv # vlines @ df # flines"
    have "parse_lines parse_init ((dv # vlines) @ (df # flines)) =
        Inr \<lparr>ss = [text_of_lines vlines, text_of_lines flines], type = FRAGMENT\<rparr>"
      unfolding parse_lines_append parse_init_def
      using parse_lines_vertex_section [OF dv v, of "[]" "[]" NONE]
        parse_lines_fragment_section [OF df f, of "text_of_lines vlines" "[]" VERTEX]
      by simp
    with l show ?thesis by simp
  next
    assume l: "lines = df # flines @ dv # vlines"
    then have ne: "lines \<noteq> dv # vlines @ df # flines"
      using dv df by auto
    have "parse_lines parse_init ((df # flines) @ (dv # vlines)) =
        Inr \<lparr>ss = [text_of_lines vlines, text_of_lines flines], type = VERTEX\<rparr>"
      unfolding parse_lines_append parse_init_def
      using parse_lines_fragment_section [OF df f, of "[]" "[]" NONE]
        parse_lines_vertex_section [OF dv v, of "[]" "text_of_lines flines" FRAGMENT]
      by simp
    with l ne show ?thesis by simp
  qed
  with loop src show ?thesis
    by (simp add: ParseShader_def ifstream_def)
qed

text \<open>The theorem of claim C1 at a file of five lines.\<close>

theorem C1_sections_split_witness:
  "ParseShader sample_files ''default.shader'' =
     Inr \<lparr>VertexSource = text_of_lines [''void main() {'', ''}''],
          FragmentSource = text_of_lines [''out vec4 c;'']\<rparr>"
  by (rule C1_sections_split [where contents = "text_of_lines sample_lines" and lines = sample_lines
        and dv = "''#shader vertex''" and df = "''#shader fragment''"])
     (simp_all add: sample_files_def sample_lines_def newline_def)

lemma parse_lines_content_first:
  "string_find l ''#shader'' = None \<Longrightarrow>
   parse_lines parse_init (l # ls) = Inl (IndexOutOfBounds (- 1))"
  by (simp add: loop_body_def ss_append_def parse_init_def)

text \<open>
  Claim C5. A content line before any directive: \<^verbatim>\<open>type\<close> is still \<^verbatim>\<open>NONE\<close>, the
  line goes to \<^verbatim>\<open>ss[-1]\<close>, and the index is outside of the array. The file here starts
  with the line \<^verbatim>\<open>#version 330 core\<close>.
\<close>

theorem C5_content_before_directive:
  "ParseShader content_first_files ''default.shader'' = Inl (IndexOutOfBounds (- 1))"
proof -
  have "parse_loop parse_init (text_of_lines [''#version 330 core'', ''#shader vertex'']) =
      parse_lines parse_init [''#version 330 core'', ''#shader vertex'']"
    by (rule parse_loop_terminated) (simp add: newline_def)
  also have "\<dots> = Inl (IndexOutOfBounds (- 1))"
    by (rule parse_lines_content_first) simp
  finally show ?thesis
    by (simp add: ParseShader_def ifstream_def content_first_files_def)
qed

text \<open>
  Claim C9. On an empty file the loop body never runs and both fields of the result
  are the empty string.
\<close>

theorem C9_empty_file:
  "ParseShader (files(filepath \<mapsto> [])) filepath = Inr \<lparr>VertexSource = [], FragmentSource = []\<rparr>"
  by (simp add: ParseShader_def ifstream_def parse_loop_Nil parse_init_def)

text \<open>
  Claim C10. A line with the marker and neither \<open>vertex\<close> nor \<open>fragment\<close> leaves the
  mode and both buffers as they are; a line with the marker and both sub-tokens selects
  the vertex mode, since \<open>vertex\<close> is tested first.
\<close>

theorem C10_malformed_and_double_directives:
  "(string_find line1 ''#shader'' \<noteq> None \<and> string_find line1 ''vertex'' = None \<and>
    string_find line1 ''fragment'' = None \<longrightarrow> loop_body st line1 = Inr st) \<and>
   (string_find line2 ''#shader'' \<noteq> None \<and> string_find line2 ''vertex'' \<noteq> None \<and>
    string_find line2 ''fragment'' \<noteq> None \<longrightarrow> loop_body st line2 = Inr (st\<lparr>type := VERTEX\<rparr>))"
  by (simp add: loop_body_def)

text \<open>The theorem of claim C10 at a geometry directive and at a directive with both sub-tokens.\<close>

theorem C10_malformed_and_double_directives_witness:
  "loop_body \<lparr>ss = [''a'', ''b''], type = FRAGMENT\<rparr> ''#shader geometry'' =
     Inr \<lparr>ss = [''a'', ''b''], type = FRAGMENT\<rparr> \<and>
   loop_body \<lparr>ss = [''a'', ''b''], type = FRAGMENT\<rparr> ''#shader fragment vertex'' =
     Inr \<lparr>ss = [''a'', ''b''], type = VERTEX\<rparr>"
  using C10_malformed_and_double_directives
    [of "''#shader geometry''" "\<lparr>ss = [''a'', ''b''], type = FRAGMENT\<rparr>" "''#shader fragment vertex''"]
  by simp

section \<open>Directive lines leave no trace\<close>

lemma clean_append:
  assumes m: "\<not> sublist m buf" and e: "buf = [] \<or> last buf = a"
    and l: "\<not> sublist m line" and a: "a \<notin> set m"
  shows "\<not> sublist m (buf @ line @ [a])"
proof
  assume s: "sublist m (buf @ line @ [a])"
  from m have ne: "m \<noteq> []"
    by auto
  have tail: "\<not> sublist m (line @ [a])"
    using sublist_sep [OF a, of line "[]"] l ne by auto
  show False
  proof (cases "buf = []")
    case True
    with s tail show False by simp
  next
    case False
    with e have b: "buf = butlast buf @ [a]"
      by (metis append_butlast_last_id)
    then have "buf @ line @ [a] = butlast buf @ a # (line @ [a])"
      by (metis append.assoc append_Cons append_Nil)
    with s have "sublist m (butlast buf) \<or> sublist m (line @ [a])"
      using sublist_sep [OF a] by metis
    with tail have "sublist m (butlast buf)"
      by simp
    then have "sublist m (butlast buf @ [a])"
      by (metis sublist_append)
    with b m show False
      by simp
  qed
qed

lemma marker_free_buffer:
  assumes "string_find buf ''#shader'' = None" "buf = [] \<or> last buf = newline"
    "string_find line ''#shader'' = None"
  shows "string_find (buf @ line @ [newline]) ''#shader'' = None"
  using assms clean_append [of "''#shader''" buf newline line]
  by (simp add: string_find_None newline_def)

lemma marker_free_line:
  "string_find line ''#shader'' = None \<Longrightarrow> string_find (line @ [newline]) ''#shader'' = None"
  using marker_free_buffer [of "[]" line] by simp

lemma loop_body_marker_free:
  assumes b: "loop_body st line = Inr st'" and inv: "marker_free st"
  shows "marker_free st'"
proof (cases "string_find line ''#shader'' = None")
  case False
  with b have "ss st' = ss st"
    by (auto simp: loop_body_def split: if_splits)
  with inv show ?thesis
    by (simp add: marker_free_def)
next
  case True
  from inv obtain v f where vf: "ss st = [v, f]"
    by (auto simp: marker_free_def length_Suc_conv numeral_2_eq_2)
  from True b vf have "ss st' = [v @ line @ [newline], f] \<or> ss st' = [v, f @ line @ [newline]]"
    by (cases "type st") (auto simp: loop_body_def ss_append_def split: if_splits)
  with inv vf True show ?thesis
    by (auto simp: marker_free_def marker_free_buffer marker_free_line simp del: string_find.simps)
qed

lemma parse_loop_marker_free:
  "parse_loop st stream = Inr st' \<Longrightarrow> marker_free st \<Longrightarrow> marker_free st'"
proof (induction st stream rule: parse_loop.induct)
  case (1 st stream)
  show ?case
  proof (cases "getline stream")
    case None
    with "1.prems" show ?thesis
      by (simp add: parse_loop.simps)
  next
    case (Some p)
    obtain line rest where p: "p = (line, rest)"
      by (cases p)
    with Some "1.prems"(1) obtain st1 where b: "loop_body st line = Inr st1"
      and r: "parse_loop st1 rest = Inr st'"
      by (subst (asm) parse_loop.simps) (auto split: sum.splits)
    from b "1.prems"(2) have "marker_free st1"
      by (rule loop_body_marker_free)
    with "1.IH" [OF Some p [symmetric] b r] show ?thesis .
  qed
qed

lemma ParseShader_sample:
  "ParseShader sample_files ''default.shader'' =
     Inr \<lparr>VertexSource = text_of_lines [''void main() {'', ''}''],
          FragmentSource = text_of_lines [''out vec4 c;'']\<rparr>"
proof -
  have "parse_loop parse_init (text_of_lines sample_lines) = parse_lines parse_init sample_lines"
    by (rule parse_loop_terminated) (simp add: sample_lines_def newline_def)
  also have "\<dots> = Inr \<lparr>ss = [text_of_lines [''void main() {'', ''}''], text_of_lines [''out vec4 c;'']],
                        type = FRAGMENT\<rparr>"
    by (simp add: sample_lines_def parse_init_def loop_body_def ss_append_def text_of_lines_def)
  finally show ?thesis
    by (simp add: ParseShader_def ifstream_def sample_files_def)
qed

text \<open>
  Claim C6. The marker \<^verbatim>\<open>#shader\<close> occurs nowhere in either string that \<^verbatim>\<open>ParseShader\<close>
  returns, so no directive line does; and the loop body on a directive line changes
  nothing but the mode.
\<close>

theorem C6_directives_stripped:
  "(ParseShader files filepath = Inr src \<longrightarrow>
      string_find (VertexSource src) ''#shader'' = None \<and>
      string_find (FragmentSource src) ''#shader'' = None) \<and>
   (string_find line ''#shader'' \<noteq> None \<longrightarrow>
      (\<exists>t. loop_body st line = Inr (st\<lparr>type := t\<rparr>)))"
proof (intro conjI impI)
  assume r: "ParseShader files filepath = Inr src"
  then obtain st' where l: "parse_loop parse_init (ifstream files filepath) = Inr st'"
    and src: "src = \<lparr>VertexSource = ss st' ! 0, FragmentSource = ss st' ! 1\<rparr>"
    by (auto simp: ParseShader_def split: sum.splits)
  have "marker_free parse_init"
    by (simp add: marker_free_def parse_init_def)
  with l have "marker_free st'"
    by (rule parse_loop_marker_free)
  then obtain v f where "ss st' = [v, f]" "string_find v ''#shader'' = None"
    "string_find f ''#shader'' = None"
    by (auto simp: marker_free_def length_Suc_conv numeral_2_eq_2)
  with src show "string_find (VertexSource src) ''#shader'' = None"
    and "string_find (FragmentSource src) ''#shader'' = None"
    by simp_all
next
  assume d: "string_find line ''#shader'' \<noteq> None"
  have "st\<lparr>type := type st\<rparr> = st"
    by simp
  with d show "\<exists>t. loop_body st line = Inr (st\<lparr>type := t\<rparr>)"
    unfolding loop_body_def by (metis (full_types))
qed

text \<open>The theorem of claim C6 at the file of five lines and at a fragment directive.\<close>

theorem C6_directives_stripped_witness:
  "ParseShader sample_files ''default.shader'' =
     Inr \<lparr>VertexSource = text_of_lines [''void main() {'', ''}''],
          FragmentSource = text_of_lines [''out vec4 c;'']\<rparr> \<and>
   string_find (text_of_lines [''void main() {'', ''}'']) ''#shader'' = None \<and>
   string_find (text_of_lines [''out vec4 c;'']) ''#shader'' = None \<and>
   string_find ''#shader fragment'' ''#shader'' \<noteq> None \<and>
   (\<exists>t. loop_body parse_init ''#shader fragment'' = Inr (parse_init\<lparr>type := t\<rparr>))"
proof -
  note r = ParseShader_sample
  have d: "string_find ''#shader fragment'' ''#shader'' \<noteq> None"
    by simp
  from r d C6_directives_stripped [of sample_files "''default.shader''"
      "\<lparr>VertexSource = text_of_lines [''void main() {'', ''}''],
          FragmentSource = text_of_lines [''out vec4 c;'']\<rparr>" "''#shader fragment''" parse_init]
  show ?thesis
    by simp
qed

section \<open>What one build does\<close>

lemmas gl_defs = glCreateShader_def glShaderSource_def glCompileShader_def glGetShaderiv_def
  glGetShaderInfoLog_def glDeleteShader_def called_def lookup_shader_def print_def
  GL_FALSE_def GL_TRUE_def

lemma CompileShader_compiled:
  assumes "compile drv ty (c_str source) = (True, log)"
  shows "CompileShader drv ty source w =
     Inr (Suc (last_name w),
          w\<lparr>shaders := (Suc (last_name w),
                          \<lparr>kind = ty, source_text = c_str source, compile_status = True,
                           info_log = log, delete_flag = False\<rparr>) # shaders w,
            last_name := Suc (last_name w),
            calls := calls w @
              [Call_glCreateShader ty (Suc (last_name w)),
               Call_glShaderSource (Suc (last_name w)) (c_str source),
               Call_glCompileShader (Suc (last_name w)),
               Call_glGetShaderiv (Suc (last_name w)) GL_COMPILE_STATUS]\<rparr>)"
  using assms by (simp add: CompileShader_def gl_defs Let_def)

lemma CompileShader_failed:
  assumes "compile drv ty (c_str source) = (False, log)" and "log \<noteq> []"
  shows "CompileShader drv ty source w =
     Inr (0,
          w\<lparr>shaders :=
              (if is_attached w (Suc (last_name w))
               then (Suc (last_name w),
                     \<lparr>kind = ty, source_text = c_str source, compile_status = False,
                      info_log = log, delete_flag = True\<rparr>) # shaders w
               else AList.delete (Suc (last_name w)) (shaders w)),
            last_name := Suc (last_name w),
            calls := calls w @
              [Call_glCreateShader ty (Suc (last_name w)),
               Call_glShaderSource (Suc (last_name w)) (c_str source),
               Call_glCompileShader (Suc (last_name w)),
               Call_glGetShaderiv (Suc (last_name w)) GL_COMPILE_STATUS,
               Call_glGetShaderiv (Suc (last_name w)) GL_INFO_LOG_LENGTH,
               Call_glGetShaderInfoLog (Suc (last_name w)) (int (length log) + 1),
               Call_glDeleteShader (Suc (last_name w))],
            cout := cout w @ ''Failed to compile shader''
                      @ (if ty = GL_VERTEX_SHADER then ''vertex'' else ''fragment'')
                      @ [newline] @ log @ [newline]\<rparr>)"
  using assms by (simp add: CompileShader_def gl_defs Let_def is_attached_def)

lemma glCreateProgram_eq:
  "glCreateProgram w =
     (Suc (last_name w),
      w\<lparr>programs := (Suc (last_name w), \<lparr>attached = [], link_status = False, validate_status = False\<rparr>) # programs w,
        last_name := Suc (last_name w),
        calls := calls w @ [Call_glCreateProgram (Suc (last_name w))]\<rparr>)"
  by (simp add: glCreateProgram_def called_def Let_def)

lemma glAttachShader_fields [simp]:
  "calls (glAttachShader p s w) = calls w @ [Call_glAttachShader p s]"
  "cout (glAttachShader p s w) = cout w"
  "shaders (glAttachShader p s w) = shaders w"
  "last_name (glAttachShader p s w) = last_name w"
  by (simp_all add: glAttachShader_def called_def split: option.splits)

lemma glLinkProgram_fields [simp]:
  "calls (glLinkProgram drv p w) = calls w @ [Call_glLinkProgram p]"
  "cout (glLinkProgram drv p w) = cout w"
  "shaders (glLinkProgram drv p w) = shaders w"
  "last_name (glLinkProgram drv p w) = last_name w"
  by (simp_all add: glLinkProgram_def called_def split: option.splits)

lemma glValidateProgram_fields [simp]:
  "calls (glValidateProgram drv p w) = calls w @ [Call_glValidateProgram p]"
  "cout (glValidateProgram drv p w) = cout w"
  "shaders (glValidateProgram drv p w) = shaders w"
  "last_name (glValidateProgram drv p w) = last_name w"
  by (simp_all add: glValidateProgram_def called_def split: option.splits)

lemma glDeleteShader_fields [simp]:
  "calls (glDeleteShader s w) = calls w @ [Call_glDeleteShader s]"
  "cout (glDeleteShader s w) = cout w"
  "programs (glDeleteShader s w) = programs w"
  "last_name (glDeleteShader s w) = last_name w"
  by (simp_all add: glDeleteShader_def called_def split: option.splits)

lemma lookup_shader_shaders: "shaders w' = shaders w \<Longrightarrow> lookup_shader w' s = lookup_shader w s"
  by (simp add: lookup_shader_def)

lemma released_shaders: "shaders w' = shaders w \<Longrightarrow> released w' s = released w s"
  by (simp add: released_def lookup_shader_def)

lemma lookup_glDeleteShader_other:
  "s' \<noteq> s \<Longrightarrow> lookup_shader (glDeleteShader s w) s' = lookup_shader w s'"
  by (simp add: glDeleteShader_def called_def lookup_shader_def update_conv' split: option.splits)

lemma released_glDeleteShader: "released (glDeleteShader s w) s"
  by (simp add: glDeleteShader_def called_def lookup_shader_def released_def update_conv' delete_conv'
      split: option.splits)

lemma released_glDeleteShader_mono: "released w s' \<Longrightarrow> released (glDeleteShader s w) s'"
proof (cases "s' = s")
  case True
  then show ?thesis
    by (simp add: released_glDeleteShader)
next
  case False
  assume "released w s'"
  with False show ?thesis
    by (simp add: released_def lookup_glDeleteShader_other)
qed

lemma CompileShader_no_log:
  assumes "compile drv ty (c_str source) = (False, [])"
  shows "CompileShader drv ty source w = Inl IndeterminateValue"
  using assms by (simp add: CompileShader_def gl_defs Let_def)

lemma CompileShader_returns:
  assumes "compile drv ty (c_str source) = (ok, log)" and "ok \<or> log \<noteq> []"
  shows "\<exists>r w'. CompileShader drv ty source w = Inr (r, w')"
  using assms by (cases ok) (simp_all add: CompileShader_compiled CompileShader_failed)

lemma CompileShader_facts:
  assumes c: "compile drv ty (c_str source) = (ok, log)"
    and n: "ok \<or> log \<noteq> []"
    and r: "CompileShader drv ty source w = Inr (r, w')"
  shows "r = (if ok then Suc (last_name w) else 0)"
    and "calls w' = calls w @
       [Call_glCreateShader ty (Suc (last_name w)),
        Call_glShaderSource (Suc (last_name w)) (c_str source),
        Call_glCompileShader (Suc (last_name w)),
        Call_glGetShaderiv (Suc (last_name w)) GL_COMPILE_STATUS] @
       (if ok then []
        else [Call_glGetShaderiv (Suc (last_name w)) GL_INFO_LOG_LENGTH,
              Call_glGetShaderInfoLog (Suc (last_name w)) (int (length log) + 1),
              Call_glDeleteShader (Suc (last_name w))])"
    and "cout w' = cout w @
       (if ok then []
        else ''Failed to compile shader''
             @ (if ty = GL_VERTEX_SHADER then ''vertex'' else ''fragment'')
             @ [newline] @ log @ [newline])"
    and "programs w' = programs w"
    and "last_name w' = Suc (last_name w)"
    and "\<And>s. s \<noteq> Suc (last_name w) \<Longrightarrow> lookup_shader w' s = lookup_shader w s"
    and "ok \<Longrightarrow> lookup_shader w' (Suc (last_name w)) =
        Some \<lparr>kind = ty, source_text = c_str source, compile_status = True,
              info_log = log, delete_flag = False\<rparr>"
    and "\<not> ok \<Longrightarrow> released w' (Suc (last_name w))"
proof -
  show "r = (if ok then Suc (last_name w) else 0)"
    using c n r by (cases ok) (simp_all add: CompileShader_compiled CompileShader_failed)
  show "calls w' = calls w @
       [Call_glCreateShader ty (Suc (last_name w)),
        Call_glShaderSource (Suc (last_name w)) (c_str source),
        Call_glCompileShader (Suc (last_name w)),
        Call_glGetShaderiv (Suc (last_name w)) GL_COMPILE_STATUS] @
       (if ok then []
        else [Call_glGetShaderiv (Suc (last_name w)) GL_INFO_LOG_LENGTH,
              Call_glGetShaderInfoLog (Suc (last_name w)) (int (length log) + 1),
              Call_glDeleteShader (Suc (last_name w))])"
    using c n r by (cases ok) (auto simp: CompileShader_compiled CompileShader_failed)
  show "cout w' = cout w @
       (if ok then []
        else ''Failed to compile shader''
             @ (if ty = GL_VERTEX_SHADER then ''vertex'' else ''fragment'')
             @ [newline] @ log @ [newline])"
    using c n r by (cases ok) (auto simp: CompileShader_compiled CompileShader_failed)
  show "programs w' = programs w"
    using c n r by (cases ok) (auto simp: CompileShader_compiled CompileShader_failed)
  show "last_name w' = Suc (last_name w)"
    using c n r by (cases ok) (auto simp: CompileShader_compiled CompileShader_failed)
  show "lookup_shader w' s = lookup_shader w s" if "s \<noteq> Suc (last_name w)" for s
    using c n r that
    by (cases ok) (auto simp: CompileShader_compiled CompileShader_failed lookup_shader_def)
  show "lookup_shader w' (Suc (last_name w)) =
        Some \<lparr>kind = ty, source_text = c_str source, compile_status = True,
              info_log = log, delete_flag = False\<rparr>" if ok
    using c n r that by (auto simp: CompileShader_compiled lookup_shader_def)
  show "released w' (Suc (last_name w))" if "\<not> ok"
    using c n r that
    by (auto simp: CompileShader_failed lookup_shader_def released_def delete_conv')
qed

lemma lookup_program_programs:
  "programs w' = programs w \<Longrightarrow> lookup_program w' p = lookup_program w p"
  by (simp add: lookup_program_def)

lemma lookup_program_glAttachShader:
  "lookup_program w p = Some po \<Longrightarrow>
   lookup_program (glAttachShader p s w) p =
     Some (case lookup_shader w s of
             None \<Rightarrow> po
           | Some so \<Rightarrow> if s \<in> set (attached po) then po else po\<lparr>attached := attached po @ [s]\<rparr>)"
  by (auto simp: glAttachShader_def called_def lookup_program_def update_conv'
      split: option.splits if_splits)

lemma lookup_program_glLinkProgram:
  "lookup_program w p = Some po \<Longrightarrow>
   lookup_program (glLinkProgram drv p w) p = Some (po\<lparr>link_status := link drv (attached_objects w po)\<rparr>)"
  by (auto simp: glLinkProgram_def called_def lookup_program_def update_conv' split: if_splits)

lemma lookup_program_glValidateProgram:
  "lookup_program w p = Some po \<Longrightarrow>
   lookup_program (glValidateProgram drv p w) p =
     Some (po\<lparr>validate_status := validate drv (attached_objects w po)\<rparr>)"
  by (auto simp: glValidateProgram_def called_def lookup_program_def update_conv' split: if_splits)

lemma attached_objects_shaders:
  "shaders w' = shaders w \<Longrightarrow> attached_objects w' po = attached_objects w po"
proof -
  assume "shaders w' = shaders w"
  then have "lookup_shader w' = lookup_shader w"
    by (intro ext lookup_shader_shaders)
  then show ?thesis
    by (simp add: attached_objects_def)
qed

lemma CreateShader_effect:
  assumes v: "compile drv GL_VERTEX_SHADER (c_str vertexShader) = (vok, vlog)"
    and nv: "vok \<or> vlog \<noteq> []"
    and f: "compile drv GL_FRAGMENT_SHADER (c_str fragmentShader) = (fok, flog)"
    and nf: "fok \<or> flog \<noteq> []"
  shows "\<exists>w'. CreateShader drv vertexShader fragmentShader w = Inr (Suc (last_name w), w') \<and>
    calls w' = calls w @
      [Call_glCreateProgram (Suc (last_name w)),
       Call_glCreateShader GL_VERTEX_SHADER (Suc (Suc (last_name w))),
       Call_glShaderSource (Suc (Suc (last_name w))) (c_str vertexShader),
       Call_glCompileShader (Suc (Suc (last_name w))),
       Call_glGetShaderiv (Suc (Suc (last_name w))) GL_COMPILE_STATUS] @
      (if vok then []
       else [Call_glGetShaderiv (Suc (Suc (last_name w))) GL_INFO_LOG_LENGTH,
             Call_glGetShaderInfoLog (Suc (Suc (last_name w))) (int (length vlog) + 1),
             Call_glDeleteShader (Suc (Suc (last_name w)))]) @
      [Call_glCreateShader GL_FRAGMENT_SHADER (Suc (Suc (Suc (last_name w)))),
       Call_glShaderSource (Suc (Suc (Suc (last_name w)))) (c_str fragmentShader),
       Call_glCompileShader (Suc (Suc (Suc (last_name w)))),
       Call_glGetShaderiv (Suc (Suc (Suc (last_name w)))) GL_COMPILE_STATUS] @
      (if fok then []
       else [Call_glGetShaderiv (Suc (Suc (Suc (last_name w)))) GL_INFO_LOG_LENGTH,
             Call_glGetShaderInfoLog (Suc (Suc (Suc (last_name w)))) (int (length flog) + 1),
             Call_glDeleteShader (Suc (Suc (Suc (last_name w))))]) @
      [Call_glAttachShader (Suc (last_name w)) (if vok then Suc (Suc (last_name w)) else 0),
       Call_glAttachShader (Suc (last_name w)) (if fok then Suc (Suc (Suc (last_name w))) else 0),
       Call_glLinkProgram (Suc (last_name w)),
       Call_glValidateProgram (Suc (last_name w)),
       Call_glDeleteShader (if vok then Suc (Suc (last_name w)) else 0),
       Call_glDeleteShader (if fok then Suc (Suc (Suc (last_name w))) else 0)] \<and>
    cout w' = cout w @
      (if vok then [] else ''Failed to compile shader'' @ ''vertex'' @ [newline] @ vlog @ [newline]) @
      (if fok then [] else ''Failed to compile shader'' @ ''fragment'' @ [newline] @ flog @ [newline]) \<and>
    lookup_program w' (Suc (last_name w)) =
      Some \<lparr>attached = (if vok then [Suc (Suc (last_name w))] else []) @
                        (if fok then [Suc (Suc (Suc (last_name w)))] else []),
            link_status = link drv
              ((if vok then [\<lparr>kind = GL_VERTEX_SHADER, source_text = c_str vertexShader,
                               compile_status = True, info_log = vlog, delete_flag = False\<rparr>] else []) @
               (if fok then [\<lparr>kind = GL_FRAGMENT_SHADER, source_text = c_str fragmentShader,
                               compile_status = True, info_log = flog, delete_flag = False\<rparr>] else [])),
            validate_status = validate drv
              ((if vok then [\<lparr>kind = GL_VERTEX_SHADER, source_text = c_str vertexShader,
                               compile_status = True, info_log = vlog, delete_flag = False\<rparr>] else []) @
               (if fok then [\<lparr>kind = GL_FRAGMENT_SHADER, source_text = c_str fragmentShader,
                               compile_status = True, info_log = flog, delete_flag = False\<rparr>] else []))\<rparr> \<and>
    released w' (Suc (Suc (last_name w))) \<and>
    released w' (Suc (Suc (Suc (last_name w))))"
proof -
  let ?p = "Suc (last_name w)"
  let ?ov = "\<lparr>kind = GL_VERTEX_SHADER, source_text = c_str vertexShader,
              compile_status = True, info_log = vlog, delete_flag = False\<rparr>"
  let ?of = "\<lparr>kind = GL_FRAGMENT_SHADER, source_text = c_str fragmentShader,
              compile_status = True, info_log = flog, delete_flag = False\<rparr>"
  define w1 where "w1 = snd (glCreateProgram w)"
  have cp: "glCreateProgram w = (?p, w1)"
    and w1: "calls w1 = calls w @ [Call_glCreateProgram ?p]" "cout w1 = cout w"
      "last_name w1 = ?p"
      "programs w1 = (?p, \<lparr>attached = [], link_status = False, validate_status = False\<rparr>) # programs w"
    by (simp_all add: w1_def glCreateProgram_eq)
  obtain vs w2 where c2: "CompileShader drv GL_VERTEX_SHADER vertexShader w1 = Inr (vs, w2)"
    using CompileShader_returns [OF v nv] by blast
  note v2 = CompileShader_facts [OF v nv c2, unfolded w1]
  obtain fs w3 where c3: "CompileShader drv GL_FRAGMENT_SHADER fragmentShader w2 = Inr (fs, w3)"
    using CompileShader_returns [OF f nf] by blast
  note f3 = CompileShader_facts [OF f nf c3, unfolded v2]
  define w4 where "w4 = glAttachShader ?p vs w3"
  define w5 where "w5 = glAttachShader ?p fs w4"
  define w6 where "w6 = glLinkProgram drv ?p w5"
  define w7 where "w7 = glValidateProgram drv ?p w6"
  define w' where "w' = glDeleteShader fs (glDeleteShader vs w7)"
  note chain = w'_def w7_def w6_def w5_def w4_def
  have res: "CreateShader drv vertexShader fragmentShader w = Inr (?p, w')"
    by (simp add: CreateShader_def cp c2 c3 chain)
  have calls: "calls w' = calls w @
      [Call_glCreateProgram (Suc (last_name w)),
       Call_glCreateShader GL_VERTEX_SHADER (Suc (Suc (last_name w))),
       Call_glShaderSource (Suc (Suc (last_name w))) (c_str vertexShader),
       Call_glCompileShader (Suc (Suc (last_name w))),
       Call_glGetShaderiv (Suc (Suc (last_name w))) GL_COMPILE_STATUS] @
      (if vok then []
       else [Call_glGetShaderiv (Suc (Suc (last_name w))) GL_INFO_LOG_LENGTH,
             Call_glGetShaderInfoLog (Suc (Suc (last_name w))) (int (length vlog) + 1),
             Call_glDeleteShader (Suc (Suc (last_name w)))]) @
      [Call_glCreateShader GL_FRAGMENT_SHADER (Suc (Suc (Suc (last_name w)))),
       Call_glShaderSource (Suc (Suc (Suc (last_name w)))) (c_str fragmentShader),
       Call_glCompileShader (Suc (Suc (Suc (last_name w)))),
       Call_glGetShaderiv (Suc (Suc (Suc (last_name w)))) GL_COMPILE_STATUS] @
      (if fok then []
       else [Call_glGetShaderiv (Suc (Suc (Suc (last_name w)))) GL_INFO_LOG_LENGTH,
             Call_glGetShaderInfoLog (Suc (Suc (Suc (last_name w)))) (int (length flog) + 1),
             Call_glDeleteShader (Suc (Suc (Suc (last_name w))))]) @
      [Call_glAttachShader (Suc (last_name w)) (if vok then Suc (Suc (last_name w)) else 0),
       Call_glAttachShader (Suc (last_name w)) (if fok then Suc (Suc (Suc (last_name w))) else 0),
       Call_glLinkProgram (Suc (last_name w)),
       Call_glValidateProgram (Suc (last_name w)),
       Call_glDeleteShader (if vok then Suc (Suc (last_name w)) else 0),
       Call_glDeleteShader (if fok then Suc (Suc (Suc (last_name w))) else 0)]"
    by (simp add: chain f3(1,2) v2(1,2))
  have cout: "cout w' = cout w @
      (if vok then [] else ''Failed to compile shader'' @ ''vertex'' @ [newline] @ vlog @ [newline]) @
      (if fok then [] else ''Failed to compile shader'' @ ''fragment'' @ [newline] @ flog @ [newline])"
    by (simp add: chain f3(3) v2(3))
  have sh: "shaders w7 = shaders w3" "shaders w6 = shaders w3" "shaders w5 = shaders w3"
    "shaders w4 = shaders w3"
    by (simp_all add: chain)
  have lv: "lookup_shader w3 vs = (if vok then Some ?ov else None)"
    using v2(1,7) f3(6) [of "Suc ?p"] by (simp add: lookup_shader_def)
  have lf: "lookup_shader w3 fs = (if fok then Some ?of else None)"
    using f3(1,7) by (simp add: lookup_shader_def)
  have "lookup_program w3 ?p = Some \<lparr>attached = [], link_status = False, validate_status = False\<rparr>"
    by (simp add: lookup_program_def f3(4))
  from lookup_program_glAttachShader [OF this, of vs]
  have p4: "lookup_program w4 ?p =
      Some \<lparr>attached = (if vok then [Suc ?p] else []), link_status = False, validate_status = False\<rparr>"
    using lv v2(1) by (cases vok) (simp_all add: w4_def)
  from lookup_program_glAttachShader [OF this, of fs]
  have p5: "lookup_program w5 ?p =
      Some \<lparr>attached = (if vok then [Suc ?p] else []) @ (if fok then [Suc (Suc ?p)] else []),
            link_status = False, validate_status = False\<rparr>"
    using lf f3(1) by (cases fok; cases vok) (simp_all add: w5_def lookup_shader_shaders [OF sh(4)])
  have objs: "attached_objects w3
       \<lparr>attached = (if vok then [Suc ?p] else []) @ (if fok then [Suc (Suc ?p)] else []),
        link_status = ls, validate_status = vst\<rparr> =
      (if vok then [?ov] else []) @ (if fok then [?of] else [])" for ls vst
    using lv lf v2(1) f3(1)
    by (cases vok; cases fok) (simp_all add: attached_objects_def List.map_filter_simps)
  from lookup_program_glLinkProgram [OF p5, of drv]
  have p6: "lookup_program w6 ?p =
      Some \<lparr>attached = (if vok then [Suc ?p] else []) @ (if fok then [Suc (Suc ?p)] else []),
            link_status = link drv ((if vok then [?ov] else []) @ (if fok then [?of] else [])),
            validate_status = False\<rparr>"
    by (simp add: w6_def attached_objects_shaders [OF sh(3)] objs)
  from lookup_program_glValidateProgram [OF p6, of drv]
  have p7: "lookup_program w7 ?p =
      Some \<lparr>attached = (if vok then [Suc ?p] else []) @ (if fok then [Suc (Suc ?p)] else []),
            link_status = link drv ((if vok then [?ov] else []) @ (if fok then [?of] else [])),
            validate_status = validate drv ((if vok then [?ov] else []) @ (if fok then [?of] else []))\<rparr>"
    by (simp add: w7_def attached_objects_shaders [OF sh(2)] objs)
  have "programs w' = programs w7"
    by (simp add: w'_def)
  from lookup_program_programs [OF this, of ?p] p7
  have prog: "lookup_program w' ?p =
      Some \<lparr>attached = (if vok then [Suc ?p] else []) @ (if fok then [Suc (Suc ?p)] else []),
            link_status = link drv ((if vok then [?ov] else []) @ (if fok then [?of] else [])),
            validate_status = validate drv ((if vok then [?ov] else []) @ (if fok then [?of] else []))\<rparr>"
    by simp
  have r1: "released w' (Suc ?p)"
  proof (cases vok)
    case True
    with v2(1) have "released (glDeleteShader vs w7) (Suc ?p)"
      by (simp add: released_glDeleteShader)
    then show ?thesis
      unfolding w'_def by (rule released_glDeleteShader_mono)
  next
    case False
    with v2(8) f3(6) [of "Suc ?p"] have "released w3 (Suc ?p)"
      by (simp add: released_def)
    then have "released w7 (Suc ?p)"
      by (simp add: released_shaders [OF sh(1)])
    then show ?thesis
      unfolding w'_def by (intro released_glDeleteShader_mono)
  qed
  have r2: "released w' (Suc (Suc ?p))"
  proof (cases fok)
    case True
    with f3(1) show ?thesis
      by (simp add: w'_def released_glDeleteShader)
  next
    case False
    with f3(8) have "released w7 (Suc (Suc ?p))"
      by (simp add: released_shaders [OF sh(1)])
    then show ?thesis
      unfolding w'_def by (intro released_glDeleteShader_mono)
  qed
  from res calls cout prog r1 r2 show ?thesis
    by blast
qed

section \<open>Properties of the program builder\<close>

text \<open>
  The text one build prints when every compilation that fails leaves an info log: for
  each stage that failed, in the order vertex, fragment, \<^verbatim>\<open>Failed to compile shader\<close>, the
  name of the stage, a line end, the whole info log of that stage, a line end; nothing
  for a stage that compiled. Each of the two shader objects is compiled once.
\<close>

lemma CreateShader_report:
  assumes v: "compile drv GL_VERTEX_SHADER (c_str vertexShader) = (vok, vlog)"
    and nv: "vok \<or> vlog \<noteq> []"
    and f: "compile drv GL_FRAGMENT_SHADER (c_str fragmentShader) = (fok, flog)"
    and nf: "fok \<or> flog \<noteq> []"
  shows "\<exists>w'. CreateShader drv vertexShader fragmentShader w = Inr (Suc (last_name w), w') \<and>
    new_output w w' =
      (if vok then [] else ''Failed to compile shader'' @ ''vertex'' @ [newline] @ vlog @ [newline]) @
      (if fok then [] else ''Failed to compile shader'' @ ''fragment'' @ [newline] @ flog @ [newline]) \<and>
    compile_calls (new_calls w w') = [Suc (Suc (last_name w)), Suc (Suc (Suc (last_name w)))]"
  using CreateShader_effect [OF v nv f nf, of w]
  by (auto simp: new_calls_def new_output_def compile_calls_def List.map_filter_simps)

text \<open>
  Claim C7 does not hold of a compilation that fails and leaves no info log. Then
  \<^verbatim>\<open>GL_INFO_LOG_LENGTH\<close> is zero, \<^verbatim>\<open>message\<close> is a buffer of no bytes that
  \<^verbatim>\<open>glGetShaderInfoLog\<close> does not write to, and \<^verbatim>\<open>std::cout << message\<close> reads bytes that
  nothing has written: what follows the stage name on the output is not the log. Here
  the compiler rejects the vertex text \<^verbatim>\<open>void main() {\<close> without a log.
\<close>

theorem C7_failure_without_log:
  "compile silent_rejecting_driver GL_VERTEX_SHADER (c_str ''void main() {'') = (False, []) \<and>
   fst (glGetShaderiv 1 GL_INFO_LOG_LENGTH
          (glCompileShader silent_rejecting_driver 1
             (glShaderSource 1 (c_str ''void main() {'')
                (snd (glCreateShader GL_VERTEX_SHADER empty_world))))) = Some 0 \<and>
   fst (glGetShaderInfoLog 1 0
          (glCompileShader silent_rejecting_driver 1
             (glShaderSource 1 (c_str ''void main() {'')
                (snd (glCreateShader GL_VERTEX_SHADER empty_world))))) = None \<and>
   CompileShader silent_rejecting_driver GL_VERTEX_SHADER ''void main() {'' empty_world =
     Inl IndeterminateValue \<and>
   CreateShader silent_rejecting_driver ''void main() {'' ''void main() {}'' empty_world =
     Inl IndeterminateValue"
proof -
  have v: "compile silent_rejecting_driver GL_VERTEX_SHADER (c_str ''void main() {'') = (False, [])"
    by (simp add: silent_rejecting_driver_def)
  have c: "CompileShader silent_rejecting_driver GL_VERTEX_SHADER ''void main() {'' w =
      Inl IndeterminateValue" for w
    by (rule CompileShader_no_log [OF v])
  have "CreateShader silent_rejecting_driver ''void main() {'' ''void main() {}'' empty_world =
      Inl IndeterminateValue"
    by (simp add: CreateShader_def glCreateProgram_eq c)
  moreover have "fst (glGetShaderiv 1 GL_INFO_LOG_LENGTH
          (glCompileShader silent_rejecting_driver 1
             (glShaderSource 1 (c_str ''void main() {'')
                (snd (glCreateShader GL_VERTEX_SHADER empty_world))))) = Some 0"
    "fst (glGetShaderInfoLog 1 0
          (glCompileShader silent_rejecting_driver 1
             (glShaderSource 1 (c_str ''void main() {'')
                (snd (glCreateShader GL_VERTEX_SHADER empty_world))))) = None"
    by (simp_all add: gl_defs empty_world_def Let_def silent_rejecting_driver_def)
  ultimately show ?thesis
    using v c by simp
qed





text \<open>
  Claim C2 fails. With a compiler that rejects the vertex text, the build does not stop
  after the vertex stage: it compiles the fragment shader object 3, links program 1 and
  returns the handle 1.
\<close>

theorem C2_vertex_failure_goes_on:
  "fst (compile vertex_rejecting_driver GL_VERTEX_SHADER (c_str ''void main() {'')) = False \<and>
   \<not> isl (CreateShader vertex_rejecting_driver ''void main() {'' ''void main() {}'' empty_world) \<and>
   fst (projr (CreateShader vertex_rejecting_driver ''void main() {'' ''void main() {}'' empty_world)) = 1 \<and>
   calls (snd (projr (CreateShader vertex_rejecting_driver ''void main() {'' ''void main() {}'' empty_world))) =
     [Call_glCreateProgram 1,
      Call_glCreateShader GL_VERTEX_SHADER 2,
      Call_glShaderSource 2 ''void main() {'',
      Call_glCompileShader 2,
      Call_glGetShaderiv 2 GL_COMPILE_STATUS,
      Call_glGetShaderiv 2 GL_INFO_LOG_LENGTH,
      Call_glGetShaderInfoLog 2 18,
      Call_glDeleteShader 2,
      Call_glCreateShader GL_FRAGMENT_SHADER 3,
      Call_glShaderSource 3 ''void main() {}'',
      Call_glCompileShader 3,
      Call_glGetShaderiv 3 GL_COMPILE_STATUS,
      Call_glAttachShader 1 0,
      Call_glAttachShader 1 3,
      Call_glLinkProgram 1,
      Call_glValidateProgram 1,
      Call_glDeleteShader 0,
      Call_glDeleteShader 3]"
proof -
  have v: "compile vertex_rejecting_driver GL_VERTEX_SHADER (c_str ''void main() {'') =
      (False, ''0:1: syntax error'')"
    and f: "compile vertex_rejecting_driver GL_FRAGMENT_SHADER (c_str ''void main() {}'') = (True, [])"
    by (simp_all add: vertex_rejecting_driver_def)
  from CreateShader_effect [OF v _ f, of empty_world] show ?thesis
    by (auto simp: v empty_world_def numeral_2_eq_2 numeral_3_eq_3)
      (simp_all add: c_str_def)
qed

text \<open>
  Claim C2, amended. When the vertex text does not compile and the compiler leaves an
  info log, the build prints the vertex report (tag, then the whole info log) and
  deletes the vertex shader object; it then goes on. These are all the calls it makes, in
  order: the fragment shader object is created and compiled (and reported and deleted
  if it fails), zero is attached for the vertex stage, the fragment stage object or zero
  is attached, the program is linked and validated, \<^verbatim>\<open>glDeleteShader\<close> is called on the two
  attached names, and the program's name is returned. The program has only the
  fragment stage attached, if that compiled, and the driver's verdicts as its status.
\<close>

theorem C2_vertex_failure_reported:
  assumes v: "compile drv GL_VERTEX_SHADER (c_str vertexShader) = (False, vlog)"
    and nv: "vlog \<noteq> []"
    and f: "compile drv GL_FRAGMENT_SHADER (c_str fragmentShader) = (fok, flog)"
    and nf: "fok \<or> flog \<noteq> []"
  shows "\<exists>w'. CreateShader drv vertexShader fragmentShader w = Inr (Suc (last_name w), w') \<and>
    new_output w w' =
      ''Failed to compile shader'' @ ''vertex'' @ [newline] @ vlog @ [newline] @
      (if fok then [] else ''Failed to compile shader'' @ ''fragment'' @ [newline] @ flog @ [newline]) \<and>
    new_calls w w' =
      [Call_glCreateProgram (Suc (last_name w)),
       Call_glCreateShader GL_VERTEX_SHADER (Suc (Suc (last_name w))),
       Call_glShaderSource (Suc (Suc (last_name w))) (c_str vertexShader),
       Call_glCompileShader (Suc (Suc (last_name w))),
       Call_glGetShaderiv (Suc (Suc (last_name w))) GL_COMPILE_STATUS,
       Call_glGetShaderiv (Suc (Suc (last_name w))) GL_INFO_LOG_LENGTH,
       Call_glGetShaderInfoLog (Suc (Suc (last_name w))) (int (length vlog) + 1),
       Call_glDeleteShader (Suc (Suc (last_name w))),
       Call_glCreateShader GL_FRAGMENT_SHADER (Suc (Suc (Suc (last_name w)))),
       Call_glShaderSource (Suc (Suc (Suc (last_name w)))) (c_str fragmentShader),
       Call_glCompileShader (Suc (Suc (Suc (last_name w)))),
       Call_glGetShaderiv (Suc (Suc (Suc (last_name w)))) GL_COMPILE_STATUS] @
      (if fok then []
       else [Call_glGetShaderiv (Suc (Suc (Suc (last_name w)))) GL_INFO_LOG_LENGTH,
             Call_glGetShaderInfoLog (Suc (Suc (Suc (last_name w)))) (int (length flog) + 1),
             Call_glDeleteShader (Suc (Suc (Suc (last_name w))))]) @
      [Call_glAttachShader (Suc (last_name w)) 0,
       Call_glAttachShader (Suc (last_name w)) (if fok then Suc (Suc (Suc (last_name w))) else 0),
       Call_glLinkProgram (Suc (last_name w)),
       Call_glValidateProgram (Suc (last_name w)),
       Call_glDeleteShader 0,
       Call_glDeleteShader (if fok then Suc (Suc (Suc (last_name w))) else 0)] \<and>
    released w' (Suc (Suc (last_name w))) \<and>
    lookup_program w' (Suc (last_name w)) =
      Some \<lparr>attached = (if fok then [Suc (Suc (Suc (last_name w)))] else []),
            link_status = link drv
              (if fok then [\<lparr>kind = GL_FRAGMENT_SHADER, source_text = c_str fragmentShader,
                         compile_status = True, info_log = flog, delete_flag = False\<rparr>] else []),
            validate_status = validate drv
              (if fok then [\<lparr>kind = GL_FRAGMENT_SHADER, source_text = c_str fragmentShader,
                         compile_status = True, info_log = flog, delete_flag = False\<rparr>] else [])\<rparr>"
  using CreateShader_effect [OF v _ f nf, of w] nv
  by (auto simp: new_calls_def new_output_def)

text \<open>The amended claim C2 at a driver that rejects every text with an info log.\<close>

theorem C2_vertex_failure_reported_witness:
  "\<exists>w'. CreateShader rejecting_driver ''void main() {'' ''void main() {}'' empty_world = Inr (1, w') \<and>
    new_output empty_world w' =
      ''Failed to compile shadervertex'' @ [newline] @ ''0:1: syntax error'' @ [newline] @
      ''Failed to compile shaderfragment'' @ [newline] @ ''0:1: syntax error'' @ [newline] \<and>
    new_calls empty_world w' =
      [Call_glCreateProgram 1,
       Call_glCreateShader GL_VERTEX_SHADER 2,
       Call_glShaderSource 2 ''void main() {'',
       Call_glCompileShader 2,
       Call_glGetShaderiv 2 GL_COMPILE_STATUS,
       Call_glGetShaderiv 2 GL_INFO_LOG_LENGTH,
       Call_glGetShaderInfoLog 2 18,
       Call_glDeleteShader 2,
       Call_glCreateShader GL_FRAGMENT_SHADER 3,
       Call_glShaderSource 3 ''void main() {}'',
       Call_glCompileShader 3,
       Call_glGetShaderiv 3 GL_COMPILE_STATUS,
       Call_glGetShaderiv 3 GL_INFO_LOG_LENGTH,
       Call_glGetShaderInfoLog 3 18,
       Call_glDeleteShader 3,
       Call_glAttachShader 1 0,
       Call_glAttachShader 1 0,
       Call_glLinkProgram 1,
       Call_glValidateProgram 1,
       Call_glDeleteShader 0,
       Call_glDeleteShader 0] \<and>
    released w' 2 \<and>
    lookup_program w' 1 = Some \<lparr>attached = [], link_status = False, validate_status = False\<rparr>"
  using C2_vertex_failure_reported [of rejecting_driver "''void main() {''" "''0:1: syntax error''"
      "''void main() {}''" False "''0:1: syntax error''" empty_world]
  by (simp add: rejecting_driver_def empty_world_def needs_both_stages_def c_str_def
      numeral_2_eq_2 numeral_3_eq_3)

text \<open>
  Claim C4 fails. With a compiler that rejects both texts, the caller receives the
  handle 1, not zero, of a program with no stage attached and not linked.
\<close>

theorem C4_handle_of_unbuilt_program:
  "fst (compile rejecting_driver GL_VERTEX_SHADER (c_str ''void main() {'')) = False \<and>
   fst (compile rejecting_driver GL_FRAGMENT_SHADER (c_str ''void main() {}'')) = False \<and>
   \<not> isl (CreateShader rejecting_driver ''void main() {'' ''void main() {}'' empty_world) \<and>
   fst (projr (CreateShader rejecting_driver ''void main() {'' ''void main() {}'' empty_world)) = 1 \<and>
   lookup_program (snd (projr (CreateShader rejecting_driver ''void main() {'' ''void main() {}'' empty_world))) 1 =
     Some \<lparr>attached = [], link_status = False, validate_status = False\<rparr>"
proof -
  have v: "compile rejecting_driver GL_VERTEX_SHADER (c_str ''void main() {'') =
      (False, ''0:1: syntax error'')"
    and f: "compile rejecting_driver GL_FRAGMENT_SHADER (c_str ''void main() {}'') =
      (False, ''0:1: syntax error'')"
    by (simp_all add: rejecting_driver_def)
  have l: "link rejecting_driver [] = False" "validate rejecting_driver [] = False"
    by (simp_all add: rejecting_driver_def needs_both_stages_def)
  from CreateShader_effect [OF v _ f, of empty_world] show ?thesis
    by (auto simp: v f l empty_world_def)
qed

text \<open>
  Claim C4, amended. Every build in which a compilation that fails leaves an info log
  returns the name of the program object it created, which is not zero. That program has
  attached exactly the stages that compiled, and its link and validation status are the
  driver's verdicts on them: the handle is of a complete program when both stages
  compiled and the link succeeded, and of an incomplete one otherwise.
\<close>

theorem C4_handle_always_returned:
  assumes v: "compile drv GL_VERTEX_SHADER (c_str vertexShader) = (vok, vlog)"
    and nv: "vok \<or> vlog \<noteq> []"
    and f: "compile drv GL_FRAGMENT_SHADER (c_str fragmentShader) = (fok, flog)"
    and nf: "fok \<or> flog \<noteq> []"
  shows "\<exists>w'. CreateShader drv vertexShader fragmentShader w = Inr (Suc (last_name w), w') \<and>
    Suc (last_name w) \<noteq> 0 \<and>
    lookup_program w' (Suc (last_name w)) =
      Some \<lparr>attached = (if vok then [Suc (Suc (last_name w))] else []) @
                        (if fok then [Suc (Suc (Suc (last_name w)))] else []),
            link_status = link drv
              ((if vok then [\<lparr>kind = GL_VERTEX_SHADER, source_text = c_str vertexShader,
                         compile_status = True, info_log = vlog, delete_flag = False\<rparr>] else []) @
               (if fok then [\<lparr>kind = GL_FRAGMENT_SHADER, source_text = c_str fragmentShader,
                         compile_status = True, info_log = flog, delete_flag = False\<rparr>] else [])),
            validate_status = validate drv
              ((if vok then [\<lparr>kind = GL_VERTEX_SHADER, source_text = c_str vertexShader,
                         compile_status = True, info_log = vlog, delete_flag = False\<rparr>] else []) @
               (if fok then [\<lparr>kind = GL_FRAGMENT_SHADER, source_text = c_str fragmentShader,
                         compile_status = True, info_log = flog, delete_flag = False\<rparr>] else []))\<rparr>"
  using CreateShader_effect [OF v nv f nf, of w] by auto

text \<open>The amended claim C4 at a driver that accepts both texts.\<close>

theorem C4_handle_always_returned_witness:
  "\<exists>w'. CreateShader accepting_driver ''void main() {}'' ''void main() {}'' empty_world = Inr (1, w') \<and>
    lookup_program w' 1 = Some \<lparr>attached = [2, 3], link_status = True, validate_status = True\<rparr>"
  using C4_handle_always_returned [of accepting_driver "''void main() {}''" True "[]"
      "''void main() {}''" True "[]" empty_world]
  by (simp add: accepting_driver_def empty_world_def needs_both_stages_def numeral_2_eq_2 numeral_3_eq_3)

end
